theory Spec2Isabelle
  imports Main "HOL-Library.Word"
begin

section \<open>Values of the Go standard library that the handler reads\<close>

text \<open>
  The handler of \<^verbatim>\<open>glog\<close> is written against \<^verbatim>\<open>log/slog\<close>, \<^verbatim>\<open>runtime\<close>,
  \<^verbatim>\<open>encoding/json\<close> and \<^verbatim>\<open>io\<close>. Their data is modelled here as far as the
  handler looks into it.

  \<^item> \<^verbatim>\<open>slog.Level\<close> is Go's \<^verbatim>\<open>int\<close>; the code only compares levels, so a level
    is an \<open>int\<close>.
  \<^item> \<^verbatim>\<open>time.Duration\<close> is an \<^verbatim>\<open>int64\<close> count of nanoseconds; the only arithmetic
    on it is a division by a positive constant, which cannot overflow, so it is an
    \<open>int\<close> with Go's truncating division written out.
  \<^item> \<^verbatim>\<open>uintptr\<close> (a program counter) is a 64-bit word.
  \<^item> A value of a type the handler does not look into (a struct, a pointer, \<^verbatim>\<open>nil\<close>)
    is a \<open>go_object\<close>: an identity, and, when its dynamic type implements the
    \<^verbatim>\<open>error\<close> interface, the text that its \<^verbatim>\<open>Error()\<close> method returns.
\<close>

type_synonym uintptr = "64 word"

type_synonym go_time = int

type_synonym writer = nat

datatype go_error = GoError string

datatype go_object = GoNil | GoObject nat "string option"

text \<open>The type assertion \<^verbatim>\<open>x.(error)\<close> followed by \<^verbatim>\<open>err.Error()\<close>.\<close>

fun as_error :: "go_object \<Rightarrow> string option" where
  "as_error GoNil = None"
| "as_error (GoObject i e) = e"

datatype Kind =
    KindAny | KindBool | KindDuration | KindFloat64 | KindInt64
  | KindString | KindTime | KindUint64 | KindGroup | KindLogValuer

text \<open>
  A \<^verbatim>\<open>slog.Value\<close>, one constructor for each \<^verbatim>\<open>slog.Kind\<close>. A value whose
  payload implements \<^verbatim>\<open>slog.LogValuer\<close> has the kind \<^verbatim>\<open>KindLogValuer\<close>, whatever
  else its type implements; every other payload that is not of a basic type has the
  kind \<^verbatim>\<open>KindAny\<close>. A float is kept as its 64 bits, as \<^verbatim>\<open>slog.Value\<close> does.
\<close>

datatype slog_Value =
    AnyValue go_object
  | BoolValue bool
  | DurationValue int
  | Float64Value "64 word"
  | Int64Value int
  | StringValue string
  | TimeValue go_time
  | Uint64Value "64 word"
  | GroupValue "(string \<times> slog_Value) list"
  | LogValuerValue go_object

type_synonym slog_Attr = "string \<times> slog_Value"

fun Value_Kind :: "slog_Value \<Rightarrow> Kind" where
  "Value_Kind (AnyValue x) = KindAny"
| "Value_Kind (BoolValue b) = KindBool"
| "Value_Kind (DurationValue d) = KindDuration"
| "Value_Kind (Float64Value f) = KindFloat64"
| "Value_Kind (Int64Value i) = KindInt64"
| "Value_Kind (StringValue s) = KindString"
| "Value_Kind (TimeValue t) = KindTime"
| "Value_Kind (Uint64Value u) = KindUint64"
| "Value_Kind (GroupValue as) = KindGroup"
| "Value_Kind (LogValuerValue x) = KindLogValuer"

text \<open>A dynamic value (\<^verbatim>\<open>interface{}\<close>), as \<^verbatim>\<open>Value.Any()\<close> returns it.\<close>

datatype go_any =
    IfaceObject go_object
  | IfaceBool bool
  | IfaceDuration int
  | IfaceFloat64 "64 word"
  | IfaceInt64 int
  | IfaceString string
  | IfaceTime go_time
  | IfaceUint64 "64 word"
  | IfaceAttrs "slog_Attr list"

fun Value_Any :: "slog_Value \<Rightarrow> go_any" where
  "Value_Any (AnyValue x) = IfaceObject x"
| "Value_Any (BoolValue b) = IfaceBool b"
| "Value_Any (DurationValue d) = IfaceDuration d"
| "Value_Any (Float64Value f) = IfaceFloat64 f"
| "Value_Any (Int64Value i) = IfaceInt64 i"
| "Value_Any (StringValue s) = IfaceString s"
| "Value_Any (TimeValue t) = IfaceTime t"
| "Value_Any (Uint64Value u) = IfaceUint64 u"
| "Value_Any (GroupValue as) = IfaceAttrs as"
| "Value_Any (LogValuerValue x) = IfaceObject x"

text \<open>Go's integer division truncates towards zero.\<close>

definition go_quot :: "int \<Rightarrow> int \<Rightarrow> int" where
  "go_quot a b = sgn a * sgn b * (\<bar>a\<bar> div \<bar>b\<bar>)"

text \<open>\<^verbatim>\<open>func (d Duration) Milliseconds() int64 { return int64(d) / 1e6 }\<close>\<close>

definition Duration_Milliseconds :: "int \<Rightarrow> int" where
  "Duration_Milliseconds d = go_quot d 1000000"

definition LevelDebug :: int where "LevelDebug = - 4"
definition LevelInfo :: int where "LevelInfo = 0"
definition LevelWarn :: int where "LevelWarn = 4"
definition LevelError :: int where "LevelError = 8"

record runtime_Frame =
  Frame_PC :: uintptr
  Frame_Function :: string
  Frame_File :: string
  Frame_Line :: int

definition zeroFrame :: runtime_Frame where
  "zeroFrame = \<lparr>Frame_PC = 0, Frame_Function = [], Frame_File = [], Frame_Line = 0\<rparr>"

record slog_Record =
  Record_Time :: go_time
  Record_Message :: string
  Record_Level :: int
  Record_PC :: uintptr
  Record_Attrs :: "slog_Attr list"

section \<open>Slices and their backing arrays\<close>

text \<open>
  \<^verbatim>\<open>GCPHandler.attrs\<close> is a slice, and \<^verbatim>\<open>WithGroup\<close> shares it between two
  handlers, so the backing arrays live in an explicit heap: a list of arrays, an
  array's address being its index. A slice is an array, an offset into it and a
  length (the capacity is left out: the code never appends).
\<close>

record slice =
  s_base :: nat
  s_off :: nat
  s_len :: nat


definition slice_elems :: "slog_Attr list list \<Rightarrow> slice \<Rightarrow> slog_Attr list" where
  "slice_elems hp s =
     (if s_base s < length hp then take (s_len s) (drop (s_off s) (hp ! s_base s)) else [])"

text \<open>The zero \<^verbatim>\<open>slog.Attr\<close>: an empty key and the zero \<^verbatim>\<open>slog.Value\<close>.\<close>

definition zeroAttr :: slog_Attr where
  "zeroAttr = ([], AnyValue GoNil)"

text \<open>\<^verbatim>\<open>make([]slog.Attr, n)\<close>: a fresh array of \<open>n\<close> zero attributes.\<close>

definition make_slice :: "slog_Attr list list \<Rightarrow> nat \<Rightarrow> slog_Attr list list \<times> slice" where
  "make_slice hp n = (hp @ [replicate n zeroAttr], \<lparr>s_base = length hp, s_off = 0, s_len = n\<rparr>)"



section \<open>The handler (\<^verbatim>\<open>GCPHandler\<close>)\<close>

type_synonym fields = "string \<rightharpoonup> go_any"

record GCPHandler =
  h_w :: writer
  h_level :: int
  h_attrs :: slice
  h_group :: string

record sourceLocation =
  File :: string
  Line :: int
  Function :: string

record gcpLogEntry =
  Severity :: string
  Message :: string
  Timestamp :: string
  SourceLocation :: "sourceLocation option"
  Context :: fields
  Extra :: fields

text \<open>
  The state the package works on: the heap of backing arrays, the package variable
  \<^verbatim>\<open>globalExtraFields\<close>, and the \<^verbatim>\<open>Write\<close> calls made on sinks so far (the
  writer and the bytes of each call, oldest first).
\<close>

record world =
  heap :: "slog_Attr list list"
  globalExtraFields :: fields
  sink_writes :: "(writer \<times> string) list"

text \<open>
  What \<^verbatim>\<open>json.Marshal\<close> is given for a \<^verbatim>\<open>gcpLogEntry\<close>: the fields that the
  struct tags select, under their JSON names, in the order of the struct. A field
  value is a string, the source-location object, or a map of dynamic values.
\<close>

datatype json_field =
    JString string
  | JSourceLocation sourceLocation
  | JMap fields

text \<open>
  The library and the environment: the encoder of \<^verbatim>\<open>encoding/json\<close> (it fails on a
  value it cannot encode), the reply of a sink to a \<^verbatim>\<open>Write\<close> (given the calls made
  before), the symbol table behind \<^verbatim>\<open>runtime.CallersFrames\<close>, and
  \<^verbatim>\<open>t.UTC().Format(time.RFC3339Nano)\<close>.
\<close>

record env =
  json_Marshal :: "(string \<times> json_field) list \<Rightarrow> go_error + string"
  io_Write :: "(writer \<times> string) list \<Rightarrow> writer \<Rightarrow> string \<Rightarrow> go_error option"
  runtime_FrameOf :: "uintptr \<Rightarrow> runtime_Frame"
  time_Format :: "go_time \<Rightarrow> string"

definition NewGCPHandler :: "world \<Rightarrow> writer \<Rightarrow> int \<Rightarrow> world \<times> GCPHandler" where
  "NewGCPHandler wd wr lv =
     (let (hp, s) = make_slice (heap wd) 0
      in (wd\<lparr>heap := hp\<rparr>, \<lparr>h_w = wr, h_level = lv, h_attrs = s, h_group = []\<rparr>))"

definition Enabled :: "GCPHandler \<Rightarrow> int \<Rightarrow> bool" where
  "Enabled h lv = (lv \<ge> h_level h)"

definition levelToGCPSeverity :: "int \<Rightarrow> string" where
  "levelToGCPSeverity lv =
     (if lv \<ge> LevelError then ''ERROR''
      else if lv \<ge> LevelWarn then ''WARNING''
      else if lv \<ge> LevelInfo then ''INFO''
      else ''DEBUG'')"

definition addAttrToFields :: "fields \<Rightarrow> slog_Attr \<Rightarrow> fields" where
  "addAttrToFields fs attr =
     (let v = snd attr;
          v' = (if Value_Kind v = KindAny then
                  (case Value_Any v of
                     IfaceObject x \<Rightarrow>
                       (case as_error x of Some msg \<Rightarrow> StringValue msg | None \<Rightarrow> v)
                   | _ \<Rightarrow> v)
                else if Value_Kind v = KindDuration then
                  (case v of
                     DurationValue d \<Rightarrow> Int64Value (Duration_Milliseconds d)
                   | _ \<Rightarrow> v)
                else v)
      in fs(fst attr \<mapsto> Value_Any v'))"

text \<open>Lines 53 to 84 of \<^verbatim>\<open>Handle\<close>: the entry, before it is marshalled.\<close>

definition build_entry :: "env \<Rightarrow> world \<Rightarrow> GCPHandler \<Rightarrow> slog_Record \<Rightarrow> gcpLogEntry" where
  "build_entry ev wd h r =
     (let severity = levelToGCPSeverity (Record_Level r);
          entry = \<lparr>Severity = severity,
                   Message = Record_Message r,
                   Timestamp = time_Format ev (Record_Time r),
                   SourceLocation = None,
                   Context = Map.empty,
                   Extra = globalExtraFields wd\<rparr>;
          shouldLogSource = (Record_Level r = LevelDebug \<or> Record_Level r = LevelError);
          entry1 = (if Record_PC r \<noteq> 0 \<and> shouldLogSource
                    then (let f = runtime_FrameOf ev (Record_PC r)
                          in entry\<lparr>SourceLocation :=
                                     Some \<lparr>File = Frame_File f,
                                           Line = Frame_Line f,
                                           Function = Frame_Function f\<rparr>\<rparr>)
                    else entry);
          ctx1 = foldl addAttrToFields (Context entry1) (slice_elems (heap wd) (h_attrs h));
          ctx2 = foldl addAttrToFields ctx1 (Record_Attrs r)
      in entry1\<lparr>Context := ctx2\<rparr>)"

text \<open>
  The struct tags of \<^verbatim>\<open>gcpLogEntry\<close>: \<^verbatim>\<open>omitempty\<close> on the pointer field
  \<^verbatim>\<open>SourceLocation\<close> leaves the key out when the pointer is nil.
\<close>

definition entry_fields :: "gcpLogEntry \<Rightarrow> (string \<times> json_field) list" where
  "entry_fields e =
     [(''severity'', JString (Severity e)),
      (''message'', JString (Message e)),
      (''timestamp'', JString (Timestamp e))]
     @ (case SourceLocation e of
          None \<Rightarrow> []
        | Some sl \<Rightarrow> [(''logging.googleapis.com/sourceLocation'', JSourceLocation sl)])
     @ [(''context'', JMap (Context e)),
        (''extra'', JMap (Extra e))]"

definition Handle :: "env \<Rightarrow> world \<Rightarrow> GCPHandler \<Rightarrow> slog_Record \<Rightarrow> world \<times> go_error option" where
  "Handle ev wd h r =
     (let entry = build_entry ev wd h r
      in case json_Marshal ev (entry_fields entry) of
           Inl err \<Rightarrow> (wd, Some err)
         | Inr b \<Rightarrow>
             (let b' = b @ [CHR 0x0A]
              in (wd\<lparr>sink_writes := sink_writes wd @ [(h_w h, b')]\<rparr>,
                  io_Write ev (sink_writes wd) (h_w h) b')))"


definition WithGroup :: "GCPHandler \<Rightarrow> string \<Rightarrow> GCPHandler" where
  "WithGroup h name = \<lparr>h_w = h_w h, h_level = h_level h, h_attrs = h_attrs h, h_group = name\<rparr>"

section \<open>The process-wide extra fields (\<^verbatim>\<open>logger.go\<close>)\<close>

text \<open>
  \<^verbatim>\<open>for key, value := range extraFields { globalExtraFields[key] = value }\<close>.
  The argument is the entries of the map \<open>extraFields\<close> in the order in which the
  \<^verbatim>\<open>range\<close> visits them, which Go leaves open; the keys of a map are distinct.
\<close>

fun merge_loop :: "fields \<Rightarrow> (string \<times> go_any) list \<Rightarrow> fields" where
  "merge_loop g [] = g"
| "merge_loop g ((key, val) # rest) = merge_loop (g(key \<mapsto> val)) rest"

definition MergeGlobalExtraFields :: "world \<Rightarrow> (string \<times> go_any) list \<Rightarrow> world" where
  "MergeGlobalExtraFields wd extraFields =
     wd\<lparr>globalExtraFields := merge_loop (globalExtraFields wd) extraFields\<rparr>"

section \<open>The call-site resolver (\<^verbatim>\<open>source.go\<close>)\<close>

definition pkgPrefix :: string where
  "pkgPrefix = ''github.com/twopow/glog.''"

definition depth :: nat where
  "depth = 16"

fun strings_HasPrefix :: "string \<Rightarrow> string \<Rightarrow> bool" where
  "strings_HasPrefix s p = (take (length p) s = p)"

fun strings_Contains :: "string \<Rightarrow> string \<Rightarrow> bool" where
  "strings_Contains [] sub = (sub = [])"
| "strings_Contains (c # s) sub = (strings_HasPrefix (c # s) sub \<or> strings_Contains s sub)"

text \<open>
  \<^verbatim>\<open>runtime.Callers(skip, pcs[:n])\<close> on a call stack given innermost frame first,
  frame 0 being \<^verbatim>\<open>runtime.Callers\<close> itself: at most \<open>n\<close> frames, after the first
  \<open>skip\<close>. The frames stand for their program counters, which
  \<^verbatim>\<open>runtime.CallersFrames\<close> turns back into frames.
\<close>

definition runtime_Callers :: "nat \<Rightarrow> nat \<Rightarrow> runtime_Frame list \<Rightarrow> runtime_Frame list" where
  "runtime_Callers skip n stack = take n (drop skip stack)"

text \<open>
  \<^verbatim>\<open>frames.Next()\<close>: the next frame and whether more follow; on an exhausted
  iterator the zero frame and \<^verbatim>\<open>false\<close>. The iterator that remains is returned too.
\<close>

fun Frames_Next :: "runtime_Frame list \<Rightarrow> (runtime_Frame \<times> bool) \<times> runtime_Frame list" where
  "Frames_Next [] = ((zeroFrame, False), [])"
| "Frames_Next (f # fs) = ((f, fs \<noteq> []), fs)"

function outsideCaller_loop :: "runtime_Frame list \<Rightarrow> uintptr" where
  "outsideCaller_loop frames =
     (let f = fst (fst (Frames_Next frames));
          more = snd (fst (Frames_Next frames));
          rest = snd (Frames_Next frames)
      in if \<not> strings_Contains (Frame_Function f) pkgPrefix then Frame_PC f
         else if \<not> more then 0
         else outsideCaller_loop rest)"
  by pat_completeness auto
termination
  apply (relation "measure length")
   apply simp
  subgoal for frames
    by (cases frames) simp_all
  done

declare outsideCaller_loop.simps [simp del]

definition outsideCaller :: "runtime_Frame list \<Rightarrow> uintptr" where
  "outsideCaller stack = outsideCaller_loop (runtime_Callers 2 depth stack)"

section \<open>Derived notions used in the statements\<close>


text \<open>
  The value is an error-like object: the dynamic value it holds (\<^verbatim>\<open>Value.Any()\<close>)
  implements \<^verbatim>\<open>error\<close>; the result is the text of \<^verbatim>\<open>Error()\<close>.
\<close>

definition Value_error_text :: "slog_Value \<Rightarrow> string option" where
  "Value_error_text v = (case Value_Any v of IfaceObject x \<Rightarrow> as_error x | _ \<Rightarrow> None)"

text \<open>A sequence of \<^verbatim>\<open>Handle\<close> calls, each on the state the one before left.\<close>

fun Handle_all :: "env \<Rightarrow> world \<Rightarrow> (GCPHandler \<times> slog_Record) list \<Rightarrow> world" where
  "Handle_all ev wd [] = wd"
| "Handle_all ev wd ((h, r) # cs) = Handle_all ev (fst (Handle ev wd h r)) cs"

section \<open>Example inputs\<close>

definition example_env :: env where
  "example_env =
     \<lparr>json_Marshal = (\<lambda>fs. Inr ''{}''),
      io_Write = (\<lambda>calls wr b. None),
      runtime_FrameOf = (\<lambda>pc. \<lparr>Frame_PC = pc, Frame_Function = ''main.run'',
                                  Frame_File = ''main.go'', Frame_Line = 10\<rparr>),
      time_Format = (\<lambda>t. ''2024-01-01T00:00:00Z'')\<rparr>"

text \<open>
  An encoder for the examples that renders the \<open>env\<close> entry of the field \<open>extra\<close>,
  so that it shows in the bytes written.
\<close>

definition example_env_extra :: env where
  "example_env_extra =
     example_env\<lparr>json_Marshal :=
       (\<lambda>fs. case map_of fs ''extra'' of
               Some (JMap m) \<Rightarrow>
                 (case m ''env'' of
                    Some (IfaceString s) \<Rightarrow> Inr s
                  | _ \<Rightarrow> Inl (GoError ''no env''))
             | _ \<Rightarrow> Inl (GoError ''no extra''))\<rparr>"

definition example_world :: world where
  "example_world =
     \<lparr>heap = [[(''svc'', StringValue ''api'')],
              [(''a'', Int64Value 1), (''b'', Int64Value 2)],
              [(''b'', Int64Value 3)]],
      globalExtraFields = Map.empty,
      sink_writes = []\<rparr>"

definition example_handler :: GCPHandler where
  "example_handler =
     \<lparr>h_w = 0, h_level = LevelInfo,
      h_attrs = \<lparr>s_base = 0, s_off = 0, s_len = 1\<rparr>, h_group = []\<rparr>"



definition example_record :: "int \<Rightarrow> uintptr \<Rightarrow> slog_Attr list \<Rightarrow> slog_Record" where
  "example_record lv pc as =
     \<lparr>Record_Time = 0, Record_Message = ''disk low'', Record_Level = lv,
      Record_PC = pc, Record_Attrs = as\<rparr>"

definition example_stack :: "runtime_Frame list" where
  "example_stack =
     [\<lparr>Frame_PC = 1, Frame_Function = ''runtime.Callers'',
       Frame_File = ''extern.go'', Frame_Line = 336\<rparr>,
      \<lparr>Frame_PC = 2, Frame_Function = ''github.com/twopow/glog.outsideCaller'',
       Frame_File = ''source.go'', Frame_Line = 15\<rparr>,
      \<lparr>Frame_PC = 3, Frame_Function = ''github.com/twopow/glog.log'',
       Frame_File = ''logger.go'', Frame_Line = 155\<rparr>,
      \<lparr>Frame_PC = 4, Frame_Function = ''github.com/twopow/glog.Info'',
       Frame_File = ''logger.go'', Frame_Line = 94\<rparr>,
      \<lparr>Frame_PC = 5, Frame_Function = ''main.run'',
       Frame_File = ''main.go'', Frame_Line = 10\<rparr>,
      \<lparr>Frame_PC = 6, Frame_Function = ''main.main'',
       Frame_File = ''main.go'', Frame_Line = 20\<rparr>]"

section \<open>Auxiliary lemmas\<close>

lemma go_quot_nonneg: "0 \<le> a \<Longrightarrow> 0 < b \<Longrightarrow> go_quot a b = a div b"
  by (cases "a = 0") (simp_all add: go_quot_def)

lemma go_quot_neg: "a < 0 \<Longrightarrow> 0 < b \<Longrightarrow> go_quot a b = - ((- a) div b)"
  by (simp add: go_quot_def)

lemma addAttrToFields_AnyValue:
  "addAttrToFields fs (k, AnyValue x) =
     fs(k \<mapsto> (case as_error x of Some msg \<Rightarrow> IfaceString msg | None \<Rightarrow> IfaceObject x))"
  by (simp add: addAttrToFields_def split: option.splits)

lemma addAttrToFields_DurationValue:
  "addAttrToFields fs (k, DurationValue n) = fs(k \<mapsto> IfaceInt64 (Duration_Milliseconds n))"
  by (simp add: addAttrToFields_def)

lemma addAttrToFields_other:
  "Value_Kind v \<noteq> KindAny \<Longrightarrow> Value_Kind v \<noteq> KindDuration \<Longrightarrow>
     addAttrToFields fs (k, v) = fs(k \<mapsto> Value_Any v)"
  by (simp add: addAttrToFields_def)


lemma SourceLocation_build_entry:
  "SourceLocation (build_entry ev wd h r) =
     (if Record_PC r \<noteq> 0 \<and> (Record_Level r = LevelDebug \<or> Record_Level r = LevelError)
      then Some \<lparr>File = Frame_File (runtime_FrameOf ev (Record_PC r)),
                 Line = Frame_Line (runtime_FrameOf ev (Record_PC r)),
                 Function = Frame_Function (runtime_FrameOf ev (Record_PC r))\<rparr>
      else None)"
  by (simp add: build_entry_def Let_def)


lemma Extra_build_entry:
  "Extra (build_entry ev wd h r) = globalExtraFields wd"
  by (simp add: build_entry_def Let_def)

lemma Context_build_entry:
  "Context (build_entry ev wd h r) =
     foldl addAttrToFields Map.empty (slice_elems (heap wd) (h_attrs h) @ Record_Attrs r)"
  by (simp add: build_entry_def Let_def)

lemma map_of_entry_fields_sourceLocation:
  "map_of (entry_fields e) ''logging.googleapis.com/sourceLocation'' =
     map_option JSourceLocation (SourceLocation e)"
  by (simp add: entry_fields_def split: option.splits)

lemma keys_entry_fields:
  "(''logging.googleapis.com/sourceLocation'' \<in> fst ` set (entry_fields e)) =
     (SourceLocation e \<noteq> None)"
  by (cases "SourceLocation e") (simp_all add: entry_fields_def)

lemma map_of_entry_fields_extra:
  "map_of (entry_fields e) ''extra'' = Some (JMap (Extra e))"
  by (simp add: entry_fields_def split: option.splits)

lemma map_of_entry_fields_context:
  "map_of (entry_fields e) ''context'' = Some (JMap (Context e))"
  by (simp add: entry_fields_def split: option.splits)

lemma Handle_writes:
  "sink_writes (fst (Handle ev wd h r)) =
     sink_writes wd @
       (case json_Marshal ev (entry_fields (build_entry ev wd h r)) of
          Inl err \<Rightarrow> []
        | Inr b \<Rightarrow> [(h_w h, b @ [CHR 0x0A])])"
  by (simp add: Handle_def Let_def split: sum.splits)

lemma Handle_result:
  "snd (Handle ev wd h r) =
     (case json_Marshal ev (entry_fields (build_entry ev wd h r)) of
        Inl err \<Rightarrow> Some err
      | Inr b \<Rightarrow> io_Write ev (sink_writes wd) (h_w h) (b @ [CHR 0x0A]))"
  by (simp add: Handle_def Let_def split: sum.splits)

lemma Handle_world:
  "fst (Handle ev wd h r) = wd\<lparr>sink_writes := sink_writes (fst (Handle ev wd h r))\<rparr>"
  by (simp add: Handle_def Let_def split: sum.splits)

lemma Handle_heap: "heap (fst (Handle ev wd h r)) = heap wd"
  by (simp add: Handle_def Let_def split: sum.splits)

lemma Handle_globalExtraFields:
  "globalExtraFields (fst (Handle ev wd h r)) = globalExtraFields wd"
  by (simp add: Handle_def Let_def split: sum.splits)

lemma strings_Contains_iff:
  "strings_Contains s sub = (\<exists>ps ss. s = ps @ sub @ ss)"
proof (induction s)
  case Nil
  then show ?case by auto
next
  case (Cons c s)
  show ?case
  proof
    assume "strings_Contains (c # s) sub"
    then consider "take (length sub) (c # s) = sub" | "strings_Contains s sub"
      by auto
    then show "\<exists>ps ss. c # s = ps @ sub @ ss"
    proof cases
      case 1
      then have "c # s = [] @ sub @ drop (length sub) (c # s)"
        by (metis append_Nil append_take_drop_id)
      then show ?thesis by blast
    next
      case 2
      then obtain ps ss where "s = ps @ sub @ ss"
        using Cons.IH by blast
      then have "c # s = (c # ps) @ sub @ ss" by simp
      then show ?thesis by blast
    qed
  next
    assume "\<exists>ps ss. c # s = ps @ sub @ ss"
    then obtain ps ss where e: "c # s = ps @ sub @ ss" by blast
    show "strings_Contains (c # s) sub"
    proof (cases ps)
      case Nil
      with e have "take (length sub) (c # s) = sub" by simp
      then show ?thesis by simp
    next
      case (Cons p ps')
      with e have "s = ps' @ sub @ ss" by simp
      then have "strings_Contains s sub" using Cons.IH by blast
      then show ?thesis by simp
    qed
  qed
qed

lemma outsideCaller_loop_find:
  "outsideCaller_loop frames =
     (case find (\<lambda>f. \<not> strings_Contains (Frame_Function f) pkgPrefix) frames of
        None \<Rightarrow> 0
      | Some f \<Rightarrow> Frame_PC f)"
proof (induction frames)
  case Nil
  show ?case
    by (subst outsideCaller_loop.simps) (simp add: zeroFrame_def)
next
  case (Cons f fs)
  show ?case
  proof (cases fs)
    case Nil
    then show ?thesis
      by (subst outsideCaller_loop.simps) simp
  next
    case (Cons g gs)
    then show ?thesis
      using Cons.IH by (subst outsideCaller_loop.simps) simp
  qed
qed

lemma merge_loop_map_add: "merge_loop g kvs = g ++ map_of (rev kvs)"
proof (induction kvs arbitrary: g)
  case Nil
  show ?case by simp
next
  case (Cons a kvs)
  obtain key val where a: "a = (key, val)" by (cases a)
  have "merge_loop g (a # kvs) = merge_loop (g(key \<mapsto> val)) kvs"
    unfolding a by (rule merge_loop.simps)
  also have "\<dots> = g(key \<mapsto> val) ++ map_of (rev kvs)"
    by (rule Cons.IH)
  also have "g(key \<mapsto> val) = g ++ [key \<mapsto> val]"
    by simp
  also have "(g ++ [key \<mapsto> val]) ++ map_of (rev kvs) = g ++ map_of (rev (a # kvs))"
    unfolding a by (simp del: map_add_upd)
  finally show ?case .
qed

lemma map_of_rev_distinct:
  "distinct (map fst xs) \<Longrightarrow> map_of (rev xs) = map_of xs"
proof (induction xs)
  case Nil
  show ?case by simp
next
  case (Cons a xs)
  obtain key val where a: "a = (key, val)" by (cases a)
  from Cons.prems a have notin: "key \<notin> fst ` set xs" and d: "distinct (map fst xs)"
    by auto
  from notin have none: "map_of xs key = None"
    by (simp add: map_of_eq_None_iff)
  have "map_of (rev (a # xs)) = [key \<mapsto> val] ++ map_of xs"
    using Cons.IH [OF d] a by simp
  also have "\<dots> = (map_of xs)(key \<mapsto> val)"
  proof
    fix x
    show "([key \<mapsto> val] ++ map_of xs) x = ((map_of xs)(key \<mapsto> val)) x"
      using none by (cases "x = key") (simp_all add: map_add_def split: option.splits)
  qed
  finally show ?case
    using a by simp
qed

lemma Handle_all_globalExtraFields:
  "globalExtraFields (Handle_all ev wd cs) = globalExtraFields wd"
  by (induction ev wd cs rule: Handle_all.induct) (simp_all add: Handle_globalExtraFields)












section \<open>The claims\<close>



text \<open>
  C2. The fields that \<^verbatim>\<open>Handle\<close> gives to the JSON encoder contain the key
  \<^verbatim>\<open>logging.googleapis.com/sourceLocation\<close> exactly when the level of the record is
  debug or error and its program counter is not 0; the key then holds the
  source-location object of that program counter. In every other case the key is
  absent (it is not there with a null value). What is written to the sink is the
  encoding of exactly these fields.
\<close>

theorem Handle_sourceLocation_iff:
  "(''logging.googleapis.com/sourceLocation'' \<in> fst ` set (entry_fields (build_entry ev wd h r))) =
     ((Record_Level r = LevelDebug \<or> Record_Level r = LevelError) \<and> Record_PC r \<noteq> 0)
   \<and> map_of (entry_fields (build_entry ev wd h r)) ''logging.googleapis.com/sourceLocation'' =
       (if (Record_Level r = LevelDebug \<or> Record_Level r = LevelError) \<and> Record_PC r \<noteq> 0
        then Some (JSourceLocation
               \<lparr>File = Frame_File (runtime_FrameOf ev (Record_PC r)),
                Line = Frame_Line (runtime_FrameOf ev (Record_PC r)),
                Function = Frame_Function (runtime_FrameOf ev (Record_PC r))\<rparr>)
        else None)
   \<and> sink_writes (fst (Handle ev wd h r)) =
       sink_writes wd @
         (case json_Marshal ev (entry_fields (build_entry ev wd h r)) of
            Inl err \<Rightarrow> []
          | Inr b \<Rightarrow> [(h_w h, b @ [CHR 0x0A])])"
proof (intro conjI)
  show "(''logging.googleapis.com/sourceLocation'' \<in> fst ` set (entry_fields (build_entry ev wd h r))) =
     ((Record_Level r = LevelDebug \<or> Record_Level r = LevelError) \<and> Record_PC r \<noteq> 0)"
    unfolding keys_entry_fields SourceLocation_build_entry by auto
  show "map_of (entry_fields (build_entry ev wd h r)) ''logging.googleapis.com/sourceLocation'' =
       (if (Record_Level r = LevelDebug \<or> Record_Level r = LevelError) \<and> Record_PC r \<noteq> 0
        then Some (JSourceLocation
               \<lparr>File = Frame_File (runtime_FrameOf ev (Record_PC r)),
                Line = Frame_Line (runtime_FrameOf ev (Record_PC r)),
                Function = Frame_Function (runtime_FrameOf ev (Record_PC r))\<rparr>)
        else None)"
    unfolding map_of_entry_fields_sourceLocation SourceLocation_build_entry by auto
  show "sink_writes (fst (Handle ev wd h r)) =
       sink_writes wd @
         (case json_Marshal ev (entry_fields (build_entry ev wd h r)) of
            Inl err \<Rightarrow> []
          | Inr b \<Rightarrow> [(h_w h, b @ [CHR 0x0A])])"
    by (rule Handle_writes)
qed

theorem Handle_sourceLocation_iff_witness:
  "''logging.googleapis.com/sourceLocation''
     \<in> fst ` set (entry_fields (build_entry example_env example_world example_handler
                                  (example_record LevelError 5 [])))
   \<and> ''logging.googleapis.com/sourceLocation''
     \<notin> fst ` set (entry_fields (build_entry example_env example_world example_handler
                                  (example_record LevelWarn 5 [])))
   \<and> ''logging.googleapis.com/sourceLocation''
     \<notin> fst ` set (entry_fields (build_entry example_env example_world example_handler
                                  (example_record LevelDebug 0 [])))"
  using Handle_sourceLocation_iff [of example_env example_world example_handler "example_record LevelError 5 []"]
    Handle_sourceLocation_iff [of example_env example_world example_handler "example_record LevelWarn 5 []"]
    Handle_sourceLocation_iff [of example_env example_world example_handler "example_record LevelDebug 0 []"]
  by (simp add: example_record_def LevelError_def LevelWarn_def LevelDebug_def)

text \<open>
  C3. The call-site resolver looks at no more than 16 frames of the call stack, the
  first of them being the caller of \<^verbatim>\<open>outsideCaller\<close> (the frames of
  \<^verbatim>\<open>runtime.Callers\<close> and of \<^verbatim>\<open>outsideCaller\<close> itself are skipped), walks them in
  the order of the stack walker, and returns the program counter of the first frame
  whose function name does not contain \<^verbatim>\<open>github.com/twopow/glog.\<close> as a substring.
  When every captured frame contains it (also when no frame was captured) the result
  is the program counter 0. The resolver is a total function: the loop terminates
  and there is no error result.
\<close>

theorem outsideCaller_first_outside:
  "outsideCaller stack =
     (case find (\<lambda>f. \<not> strings_Contains (Frame_Function f) pkgPrefix)
             (take 16 (drop 2 stack)) of
        None \<Rightarrow> 0
      | Some f \<Rightarrow> Frame_PC f)
   \<and> length (runtime_Callers 2 depth stack) \<le> 16
   \<and> strings_Contains s pkgPrefix = (\<exists>ps ss. s = ps @ pkgPrefix @ ss)"
proof (intro conjI)
  show "outsideCaller stack =
     (case find (\<lambda>f. \<not> strings_Contains (Frame_Function f) pkgPrefix)
             (take 16 (drop 2 stack)) of
        None \<Rightarrow> 0
      | Some f \<Rightarrow> Frame_PC f)"
    by (simp only: outsideCaller_def outsideCaller_loop_find runtime_Callers_def depth_def)
  show "length (runtime_Callers 2 depth stack) \<le> 16"
    by (simp add: runtime_Callers_def depth_def)
  show "strings_Contains s pkgPrefix = (\<exists>ps ss. s = ps @ pkgPrefix @ ss)"
    by (rule strings_Contains_iff)
qed

theorem outsideCaller_first_outside_witness:
  "outsideCaller example_stack = 5
   \<and> outsideCaller (take 4 example_stack) = 0
   \<and> outsideCaller [] = 0"
  using outsideCaller_first_outside [of example_stack, THEN conjunct1]
    outsideCaller_first_outside [of "take 4 example_stack", THEN conjunct1]
    outsideCaller_first_outside [of "[]", THEN conjunct1]
  by (simp add: example_stack_def pkgPrefix_def)

text \<open>
  C4. For every level the severity mapper returns one of the four strings
  \<open>DEBUG\<close>, \<open>INFO\<close>, \<open>WARNING\<close>, \<open>ERROR\<close>, chosen by comparing the level with the
  cutoffs in the order error, warn, info: \<open>ERROR\<close> from 8 up, \<open>WARNING\<close> from 4 to 7,
  \<open>INFO\<close> from 0 to 3, \<open>DEBUG\<close> below 0. A custom level above the error level maps to
  \<open>ERROR\<close>. The mapper is total and has no error result.
\<close>

theorem levelToGCPSeverity_thresholds:
  "levelToGCPSeverity lv \<in> {''DEBUG'', ''INFO'', ''WARNING'', ''ERROR''}
   \<and> levelToGCPSeverity lv =
       (if lv \<ge> LevelError then ''ERROR''
        else if lv \<ge> LevelWarn then ''WARNING''
        else if lv \<ge> LevelInfo then ''INFO''
        else ''DEBUG'')
   \<and> (lv > LevelError \<longrightarrow> levelToGCPSeverity lv = ''ERROR'')
   \<and> (levelToGCPSeverity lv = ''ERROR'') = (8 \<le> lv)
   \<and> (levelToGCPSeverity lv = ''WARNING'') = (4 \<le> lv \<and> lv < 8)
   \<and> (levelToGCPSeverity lv = ''INFO'') = (0 \<le> lv \<and> lv < 4)
   \<and> (levelToGCPSeverity lv = ''DEBUG'') = (lv < 0)"
  by (simp add: levelToGCPSeverity_def LevelError_def LevelWarn_def LevelInfo_def)

theorem levelToGCPSeverity_thresholds_witness:
  "(12::int) > LevelError \<and> levelToGCPSeverity 12 = ''ERROR''
   \<and> levelToGCPSeverity 5 = ''WARNING'' \<and> levelToGCPSeverity (- 7) = ''DEBUG''"
  using levelToGCPSeverity_thresholds [of 12] levelToGCPSeverity_thresholds [of 5]
    levelToGCPSeverity_thresholds [of "- 7"]
  by (simp add: LevelError_def LevelWarn_def LevelInfo_def)

text \<open>
  C5 (as amended). For every key and every map of fields: an attribute whose value has
  the kind \<^verbatim>\<open>KindAny\<close> and holds an error-like object is stored as the text of
  \<^verbatim>\<open>Error()\<close>; a duration of \<open>n\<close> nanoseconds is stored as the integer number of
  whole milliseconds, \<open>n / 1000000\<close> truncated towards zero (1,500,000 ns gives 1);
  a value of any other kind is stored as \<^verbatim>\<open>Value.Any()\<close> returns it. The last case
  includes an error-like object whose type also implements \<^verbatim>\<open>slog.LogValuer\<close>: its
  kind is \<^verbatim>\<open>KindLogValuer\<close>, and the object itself is stored, not its text.
\<close>

theorem addAttrToFields_by_kind:
  "addAttrToFields fs (k, AnyValue x) =
     fs(k \<mapsto> (case as_error x of Some msg \<Rightarrow> IfaceString msg | None \<Rightarrow> IfaceObject x))
   \<and> addAttrToFields fs (k, DurationValue n) = fs(k \<mapsto> IfaceInt64 (Duration_Milliseconds n))
   \<and> (0 \<le> n \<longrightarrow> Duration_Milliseconds n = n div 1000000)
   \<and> (n < 0 \<longrightarrow> Duration_Milliseconds n = - ((- n) div 1000000))
   \<and> Duration_Milliseconds 1500000 = 1
   \<and> (Value_Kind v \<noteq> KindAny \<and> Value_Kind v \<noteq> KindDuration \<longrightarrow>
        addAttrToFields fs (k, v) = fs(k \<mapsto> Value_Any v))
   \<and> addAttrToFields fs (k, LogValuerValue x) = fs(k \<mapsto> IfaceObject x)"
proof (intro conjI impI)
  show "addAttrToFields fs (k, AnyValue x) =
     fs(k \<mapsto> (case as_error x of Some msg \<Rightarrow> IfaceString msg | None \<Rightarrow> IfaceObject x))"
    by (rule addAttrToFields_AnyValue)
  show "addAttrToFields fs (k, DurationValue n) = fs(k \<mapsto> IfaceInt64 (Duration_Milliseconds n))"
    by (rule addAttrToFields_DurationValue)
  show "Duration_Milliseconds n = n div 1000000" if "0 \<le> n"
    using that by (simp add: Duration_Milliseconds_def go_quot_nonneg)
  show "Duration_Milliseconds n = - ((- n) div 1000000)" if "n < 0"
    using that by (simp add: Duration_Milliseconds_def go_quot_neg)
  show "Duration_Milliseconds 1500000 = 1"
    by (simp add: Duration_Milliseconds_def go_quot_def)
  show "addAttrToFields fs (k, v) = fs(k \<mapsto> Value_Any v)"
    if "Value_Kind v \<noteq> KindAny \<and> Value_Kind v \<noteq> KindDuration"
    using that by (simp add: addAttrToFields_other)
  show "addAttrToFields fs (k, LogValuerValue x) = fs(k \<mapsto> IfaceObject x)"
    by (simp add: addAttrToFields_other)
qed

theorem addAttrToFields_by_kind_witness:
  "addAttrToFields Map.empty (''err'', AnyValue (GoObject 1 (Some ''boom''))) ''err''
     = Some (IfaceString ''boom'')
   \<and> addAttrToFields Map.empty (''took'', DurationValue 1500000) ''took'' = Some (IfaceInt64 1)
   \<and> addAttrToFields Map.empty (''took'', DurationValue (- 1500000)) ''took''
       = Some (IfaceInt64 (- 1))
   \<and> Value_Kind (StringValue ''x'') \<noteq> KindAny \<and> Value_Kind (StringValue ''x'') \<noteq> KindDuration
   \<and> addAttrToFields Map.empty (''error'', StringValue ''x'') ''error'' = Some (IfaceString ''x'')"
  using addAttrToFields_by_kind [of Map.empty "''err''" "GoObject 1 (Some ''boom'')" 1500000 "StringValue ''x''"]
    addAttrToFields_by_kind [of Map.empty "''took''" "GoObject 1 (Some ''boom'')" 1500000 "StringValue ''x''"]
    addAttrToFields_by_kind [of Map.empty "''took''" "GoObject 1 (Some ''boom'')" "- 1500000" "StringValue ''x''"]
    addAttrToFields_by_kind [of Map.empty "''error''" "GoObject 1 (Some ''boom'')" 1500000 "StringValue ''x''"]
  by simp

text \<open>
  C5 as it is stated fails: the value below is an error-like object (the dynamic value
  it holds implements \<^verbatim>\<open>error\<close>, with the text \<open>boom\<close>), and what is stored under
  the key is the object, not the string \<open>boom\<close>.
\<close>

theorem error_object_of_kind_LogValuer_not_converted:
  "Value_error_text (LogValuerValue (GoObject 1 (Some ''boom''))) = Some ''boom''
   \<and> addAttrToFields Map.empty (''err'', LogValuerValue (GoObject 1 (Some ''boom''))) ''err''
       = Some (IfaceObject (GoObject 1 (Some ''boom'')))
   \<and> addAttrToFields Map.empty (''err'', LogValuerValue (GoObject 1 (Some ''boom''))) ''err''
       \<noteq> Some (IfaceString ''boom'')"
  by (simp add: Value_error_text_def addAttrToFields_def)

text \<open>
  C6. \<^verbatim>\<open>Enabled\<close> is true exactly when the level is greater than or equal to the
  threshold of the handler, which is the threshold the handler was constructed with.
  It reads nothing but the handler and the level, changes no state and has no error
  result.
\<close>

theorem Enabled_iff_threshold:
  "Enabled h lv = (h_level h \<le> lv)
   \<and> Enabled (snd (NewGCPHandler wd wr t)) lv = (t \<le> lv)"
  by (simp add: Enabled_def NewGCPHandler_def make_slice_def)

theorem Enabled_iff_threshold_witness:
  "Enabled (snd (NewGCPHandler example_world 0 LevelWarn)) LevelError
   \<and> Enabled (snd (NewGCPHandler example_world 0 LevelWarn)) LevelWarn
   \<and> \<not> Enabled (snd (NewGCPHandler example_world 0 LevelWarn)) LevelInfo"
  using Enabled_iff_threshold [of "snd (NewGCPHandler example_world 0 LevelWarn)" LevelError example_world 0 LevelWarn]
    Enabled_iff_threshold [of "snd (NewGCPHandler example_world 0 LevelWarn)" LevelInfo example_world 0 LevelWarn]
    Enabled_iff_threshold [of "snd (NewGCPHandler example_world 0 LevelWarn)" LevelWarn example_world 0 LevelWarn]
  by (simp add: LevelError_def LevelWarn_def LevelInfo_def NewGCPHandler_def make_slice_def)

text \<open>
  C7. \<^verbatim>\<open>MergeGlobalExtraFields\<close> leaves in the store the union of the store and the
  given map, the given map winning on a common key. After a merge of
  \<open>env = prod\<close>, every later \<^verbatim>\<open>Handle\<close> call, after any number of \<^verbatim>\<open>Handle\<close>
  calls in between and for every handler, gives the JSON encoder fields whose
  \<open>extra\<close> is the store with \<open>env = prod\<close>, writes to the sink of the handler the
  encoding of exactly these fields followed by a newline (nothing when the encoder
  fails), returns the encoder's error or else the reply of the sink, and leaves
  \<open>env = prod\<close> in the store. After a second merge of \<open>env = staging\<close> the same
  holds with \<open>env = staging\<close>, for the same handlers.
\<close>

theorem MergeGlobalExtraFields_in_every_entry:
  "(distinct (map fst kvs) \<longrightarrow>
      globalExtraFields (MergeGlobalExtraFields wd kvs) = globalExtraFields wd ++ map_of kvs)
   \<and> (distinct (map fst kvs) \<and> map_of kvs k = Some v \<longrightarrow>
        Extra (build_entry ev (Handle_all ev (MergeGlobalExtraFields wd kvs) cs) h r) k = Some v)
   \<and> map_of (entry_fields (build_entry ev
         (Handle_all ev (MergeGlobalExtraFields wd [(''env'', IfaceString ''prod'')]) cs) h r)) ''extra''
       = Some (JMap ((globalExtraFields wd)(''env'' \<mapsto> IfaceString ''prod'')))
   \<and> map_of (entry_fields (build_entry ev
         (Handle_all ev
            (MergeGlobalExtraFields
               (Handle_all ev (MergeGlobalExtraFields wd [(''env'', IfaceString ''prod'')]) cs)
               [(''env'', IfaceString ''staging'')]) cs') h r)) ''extra''
       = Some (JMap ((globalExtraFields wd)(''env'' \<mapsto> IfaceString ''staging'')))
   \<and> (let wd1 = Handle_all ev (MergeGlobalExtraFields wd [(''env'', IfaceString ''prod'')]) cs;
           fs1 = entry_fields (build_entry ev wd1 h r)
       in sink_writes (fst (Handle ev wd1 h r)) =
            sink_writes wd1 @
              (case json_Marshal ev fs1 of
                 Inl err \<Rightarrow> []
               | Inr b \<Rightarrow> [(h_w h, b @ [CHR 0x0A])])
          \<and> snd (Handle ev wd1 h r) =
              (case json_Marshal ev fs1 of
                 Inl err \<Rightarrow> Some err
               | Inr b \<Rightarrow> io_Write ev (sink_writes wd1) (h_w h) (b @ [CHR 0x0A]))
          \<and> globalExtraFields (fst (Handle ev wd1 h r)) =
              (globalExtraFields wd)(''env'' \<mapsto> IfaceString ''prod''))
   \<and> (let wd1 = Handle_all ev (MergeGlobalExtraFields wd [(''env'', IfaceString ''prod'')]) cs;
           wd2 = Handle_all ev (MergeGlobalExtraFields wd1 [(''env'', IfaceString ''staging'')]) cs';
           fs2 = entry_fields (build_entry ev wd2 h r)
       in sink_writes (fst (Handle ev wd2 h r)) =
            sink_writes wd2 @
              (case json_Marshal ev fs2 of
                 Inl err \<Rightarrow> []
               | Inr b \<Rightarrow> [(h_w h, b @ [CHR 0x0A])])
          \<and> snd (Handle ev wd2 h r) =
              (case json_Marshal ev fs2 of
                 Inl err \<Rightarrow> Some err
               | Inr b \<Rightarrow> io_Write ev (sink_writes wd2) (h_w h) (b @ [CHR 0x0A]))
          \<and> globalExtraFields (fst (Handle ev wd2 h r)) =
              (globalExtraFields wd)(''env'' \<mapsto> IfaceString ''staging''))"
proof (intro conjI impI)
  show "globalExtraFields (MergeGlobalExtraFields wd kvs) = globalExtraFields wd ++ map_of kvs"
    if "distinct (map fst kvs)"
    using that by (simp add: MergeGlobalExtraFields_def merge_loop_map_add map_of_rev_distinct)
  show "Extra (build_entry ev (Handle_all ev (MergeGlobalExtraFields wd kvs) cs) h r) k = Some v"
    if "distinct (map fst kvs) \<and> map_of kvs k = Some v"
    using that
    by (simp add: Extra_build_entry Handle_all_globalExtraFields MergeGlobalExtraFields_def
        merge_loop_map_add map_of_rev_distinct)
  show "map_of (entry_fields (build_entry ev
         (Handle_all ev (MergeGlobalExtraFields wd [(''env'', IfaceString ''prod'')]) cs) h r)) ''extra''
       = Some (JMap ((globalExtraFields wd)(''env'' \<mapsto> IfaceString ''prod'')))"
    by (simp add: map_of_entry_fields_extra Extra_build_entry Handle_all_globalExtraFields
        MergeGlobalExtraFields_def)
  show "map_of (entry_fields (build_entry ev
         (Handle_all ev
            (MergeGlobalExtraFields
               (Handle_all ev (MergeGlobalExtraFields wd [(''env'', IfaceString ''prod'')]) cs)
               [(''env'', IfaceString ''staging'')]) cs') h r)) ''extra''
       = Some (JMap ((globalExtraFields wd)(''env'' \<mapsto> IfaceString ''staging'')))"
    by (simp add: map_of_entry_fields_extra Extra_build_entry Handle_all_globalExtraFields
        MergeGlobalExtraFields_def)
  show "let wd1 = Handle_all ev (MergeGlobalExtraFields wd [(''env'', IfaceString ''prod'')]) cs;
            fs1 = entry_fields (build_entry ev wd1 h r)
        in sink_writes (fst (Handle ev wd1 h r)) =
             sink_writes wd1 @
               (case json_Marshal ev fs1 of
                  Inl err \<Rightarrow> []
                | Inr b \<Rightarrow> [(h_w h, b @ [CHR 0x0A])])
           \<and> snd (Handle ev wd1 h r) =
               (case json_Marshal ev fs1 of
                  Inl err \<Rightarrow> Some err
                | Inr b \<Rightarrow> io_Write ev (sink_writes wd1) (h_w h) (b @ [CHR 0x0A]))
           \<and> globalExtraFields (fst (Handle ev wd1 h r)) =
               (globalExtraFields wd)(''env'' \<mapsto> IfaceString ''prod'')"
    unfolding Let_def
    by (intro conjI Handle_writes Handle_result)
      (simp add: Handle_globalExtraFields Handle_all_globalExtraFields MergeGlobalExtraFields_def)
  show "let wd1 = Handle_all ev (MergeGlobalExtraFields wd [(''env'', IfaceString ''prod'')]) cs;
            wd2 = Handle_all ev (MergeGlobalExtraFields wd1 [(''env'', IfaceString ''staging'')]) cs';
            fs2 = entry_fields (build_entry ev wd2 h r)
        in sink_writes (fst (Handle ev wd2 h r)) =
             sink_writes wd2 @
               (case json_Marshal ev fs2 of
                  Inl err \<Rightarrow> []
                | Inr b \<Rightarrow> [(h_w h, b @ [CHR 0x0A])])
           \<and> snd (Handle ev wd2 h r) =
               (case json_Marshal ev fs2 of
                  Inl err \<Rightarrow> Some err
                | Inr b \<Rightarrow> io_Write ev (sink_writes wd2) (h_w h) (b @ [CHR 0x0A]))
           \<and> globalExtraFields (fst (Handle ev wd2 h r)) =
               (globalExtraFields wd)(''env'' \<mapsto> IfaceString ''staging'')"
    unfolding Let_def
    by (intro conjI Handle_writes Handle_result)
      (simp add: Handle_globalExtraFields Handle_all_globalExtraFields MergeGlobalExtraFields_def)
qed

theorem MergeGlobalExtraFields_in_every_entry_witness:
  "distinct (map fst [(''env'', IfaceString ''prod'')])
   \<and> map_of [(''env'', IfaceString ''prod'')] ''env'' = Some (IfaceString ''prod'')
   \<and> Extra (build_entry example_env
        (Handle_all example_env
           (MergeGlobalExtraFields example_world [(''env'', IfaceString ''prod'')])
           [(example_handler, example_record LevelInfo 0 [])])
        example_handler (example_record LevelWarn 0 [])) ''env'' = Some (IfaceString ''prod'')
   \<and> globalExtraFields (MergeGlobalExtraFields example_world [(''env'', IfaceString ''prod'')]) ''env''
       = Some (IfaceString ''prod'')
   \<and> sink_writes (fst (Handle example_env_extra
        (Handle_all example_env_extra
           (MergeGlobalExtraFields example_world [(''env'', IfaceString ''prod'')]) [])
        example_handler (example_record LevelWarn 0 [])))
       = [(0, ''prod'' @ [CHR 0x0A])]
   \<and> sink_writes (fst (Handle example_env_extra
        (Handle_all example_env_extra
           (MergeGlobalExtraFields
              (Handle_all example_env_extra
                 (MergeGlobalExtraFields example_world [(''env'', IfaceString ''prod'')]) [])
              [(''env'', IfaceString ''staging'')]) [])
        example_handler (example_record LevelWarn 0 [])))
       = [(0, ''staging'' @ [CHR 0x0A])]"
proof -
  note t = MergeGlobalExtraFields_in_every_entry [of "[(''env'', IfaceString ''prod'')]" example_world
      "''env''" "IfaceString ''prod''" example_env "[(example_handler, example_record LevelInfo 0 [])]"
      example_handler "example_record LevelWarn 0 []"]
  note u = MergeGlobalExtraFields_in_every_entry [of "[(''env'', IfaceString ''prod'')]" example_world
      "''env''" "IfaceString ''prod''" example_env_extra "[]"
      example_handler "example_record LevelWarn 0 []" "[]", unfolded Let_def]
  have m1: "json_Marshal example_env_extra
              (entry_fields (build_entry example_env_extra
                 (Handle_all example_env_extra
                    (MergeGlobalExtraFields example_world [(''env'', IfaceString ''prod'')]) [])
                 example_handler (example_record LevelWarn 0 []))) = Inr ''prod''"
    using u [THEN conjunct2, THEN conjunct2, THEN conjunct1]
    by (simp add: example_env_extra_def)
  have m2: "json_Marshal example_env_extra
              (entry_fields (build_entry example_env_extra
                 (Handle_all example_env_extra
                    (MergeGlobalExtraFields
                       (Handle_all example_env_extra
                          (MergeGlobalExtraFields example_world [(''env'', IfaceString ''prod'')]) [])
                       [(''env'', IfaceString ''staging'')]) [])
                 example_handler (example_record LevelWarn 0 []))) = Inr ''staging''"
    using u [THEN conjunct2, THEN conjunct2, THEN conjunct2, THEN conjunct1]
    by (simp add: example_env_extra_def)
  have w1: "sink_writes (fst (Handle example_env_extra
        (Handle_all example_env_extra
           (MergeGlobalExtraFields example_world [(''env'', IfaceString ''prod'')]) [])
        example_handler (example_record LevelWarn 0 [])))
       = [(0, ''prod'' @ [CHR 0x0A])]"
    using u [THEN conjunct2, THEN conjunct2, THEN conjunct2, THEN conjunct2, THEN conjunct1,
        THEN conjunct1]
    unfolding m1
    by (simp add: MergeGlobalExtraFields_def example_world_def example_handler_def)
  have w2: "sink_writes (fst (Handle example_env_extra
        (Handle_all example_env_extra
           (MergeGlobalExtraFields
              (Handle_all example_env_extra
                 (MergeGlobalExtraFields example_world [(''env'', IfaceString ''prod'')]) [])
              [(''env'', IfaceString ''staging'')]) [])
        example_handler (example_record LevelWarn 0 [])))
       = [(0, ''staging'' @ [CHR 0x0A])]"
    using u [THEN conjunct2, THEN conjunct2, THEN conjunct2, THEN conjunct2, THEN conjunct2,
        THEN conjunct1]
    unfolding m2
    by (simp add: MergeGlobalExtraFields_def example_world_def example_handler_def)
  show ?thesis
    using t w1 w2 by simp
qed

text \<open>
  C8. \<^verbatim>\<open>Handle\<close> returns an error exactly when the JSON encoder fails or the
  \<^verbatim>\<open>Write\<close> on the sink returns an error. One call of \<^verbatim>\<open>Handle\<close> makes no
  \<^verbatim>\<open>Write\<close> call when the encoder fails and exactly one otherwise (never a second
  one after a failed write), and it keeps nothing: the heap and the extra fields
  are as before. When \<^verbatim>\<open>Handle\<close> returns no error, the one write is the encoded
  document followed by one newline.
\<close>

theorem Handle_failure_iff:
  "(snd (Handle ev wd h r) \<noteq> None) =
     ((\<exists>err. json_Marshal ev (entry_fields (build_entry ev wd h r)) = Inl err)
      \<or> (\<exists>b. json_Marshal ev (entry_fields (build_entry ev wd h r)) = Inr b
              \<and> io_Write ev (sink_writes wd) (h_w h) (b @ [CHR 0x0A]) \<noteq> None))
   \<and> sink_writes (fst (Handle ev wd h r)) =
       sink_writes wd @
         (case json_Marshal ev (entry_fields (build_entry ev wd h r)) of
            Inl err \<Rightarrow> []
          | Inr b \<Rightarrow> [(h_w h, b @ [CHR 0x0A])])
   \<and> length (sink_writes (fst (Handle ev wd h r))) \<le> length (sink_writes wd) + 1
   \<and> heap (fst (Handle ev wd h r)) = heap wd
   \<and> globalExtraFields (fst (Handle ev wd h r)) = globalExtraFields wd
   \<and> (snd (Handle ev wd h r) = None \<longrightarrow>
        (\<exists>b. json_Marshal ev (entry_fields (build_entry ev wd h r)) = Inr b
             \<and> sink_writes (fst (Handle ev wd h r)) = sink_writes wd @ [(h_w h, b @ [CHR 0x0A])]))"
proof (cases "json_Marshal ev (entry_fields (build_entry ev wd h r))")
  case (Inl err)
  then show ?thesis
    by (simp add: Handle_def Let_def)
next
  case (Inr b)
  then show ?thesis
    by (simp add: Handle_def Let_def)
qed

theorem Handle_failure_iff_witness:
  "snd (Handle example_env example_world example_handler (example_record LevelInfo 0 [])) = None
   \<and> sink_writes (fst (Handle example_env example_world example_handler
        (example_record LevelInfo 0 []))) = [(0, ''{}'' @ [CHR 0x0A])]
   \<and> snd (Handle (example_env\<lparr>json_Marshal := (\<lambda>fs. Inl (GoError ''unsupported type''))\<rparr>)
        example_world example_handler (example_record LevelInfo 0 []))
       = Some (GoError ''unsupported type'')
   \<and> sink_writes (fst (Handle (example_env\<lparr>json_Marshal := (\<lambda>fs. Inl (GoError ''unsupported type''))\<rparr>)
        example_world example_handler (example_record LevelInfo 0 []))) = []
   \<and> snd (Handle (example_env\<lparr>io_Write := (\<lambda>calls wr b. Some (GoError ''closed pipe''))\<rparr>)
        example_world example_handler (example_record LevelInfo 0 []))
       = Some (GoError ''closed pipe'')
   \<and> sink_writes (fst (Handle (example_env\<lparr>io_Write := (\<lambda>calls wr b. Some (GoError ''closed pipe''))\<rparr>)
        example_world example_handler (example_record LevelInfo 0 []))) = [(0, ''{}'' @ [CHR 0x0A])]"
  using Handle_failure_iff [of example_env example_world example_handler "example_record LevelInfo 0 []"]
    Handle_failure_iff [of "example_env\<lparr>json_Marshal := (\<lambda>fs. Inl (GoError ''unsupported type''))\<rparr>"
      example_world example_handler "example_record LevelInfo 0 []"]
    Handle_failure_iff [of "example_env\<lparr>io_Write := (\<lambda>calls wr b. Some (GoError ''closed pipe''))\<rparr>"
      example_world example_handler "example_record LevelInfo 0 []"]
  by (simp add: example_env_def example_world_def example_handler_def Handle_result)

text \<open>
  C9. \<^verbatim>\<open>WithGroup(g)\<close> returns a handler with the sink, the threshold and the
  attribute slice of the receiver and the group \<open>g\<close>. Handling a record with it builds
  the same entry, writes the same bytes and returns the same result as handling the
  record with the receiver: the group never shows in the output.
\<close>

theorem WithGroup_same_document:
  "h_w (WithGroup h g) = h_w h
   \<and> h_level (WithGroup h g) = h_level h
   \<and> h_attrs (WithGroup h g) = h_attrs h
   \<and> h_group (WithGroup h g) = g
   \<and> build_entry ev wd (WithGroup h g) r = build_entry ev wd h r
   \<and> Handle ev wd (WithGroup h g) r = Handle ev wd h r"
proof -
  have e: "build_entry ev wd (WithGroup h g) r = build_entry ev wd h r"
    by (simp add: WithGroup_def build_entry_def)
  have w: "h_w (WithGroup h g) = h_w h"
    by (simp add: WithGroup_def)
  have "Handle ev wd (WithGroup h g) r = Handle ev wd h r"
    unfolding Handle_def e w ..
  with e w show ?thesis
    by (simp add: WithGroup_def)
qed

theorem WithGroup_same_document_witness:
  "h_group (WithGroup example_handler ''req'') = ''req''
   \<and> Context (build_entry example_env example_world (WithGroup example_handler ''req'')
        (example_record LevelInfo 0 [(''pct'', Int64Value 7)])) ''pct'' = Some (IfaceInt64 7)
   \<and> Context (build_entry example_env example_world (WithGroup example_handler ''req'')
        (example_record LevelInfo 0 [(''pct'', Int64Value 7)])) ''req.pct'' = None"
  using WithGroup_same_document [of example_handler "''req''" example_env example_world
      "example_record LevelInfo 0 [(''pct'', Int64Value 7)]"]
  by (simp add: Context_build_entry example_world_def example_handler_def example_record_def
      slice_elems_def addAttrToFields_def)



end
